theory Spec2Isabelle
  imports Complex_Main "HOL-Library.Signed_Division"
begin

section \<open>Time management of the engine: the data model\<close>

text \<open>
  The repository holds two files that define \<open>TimeManagement::init\<close>:
  \<^verbatim>\<open>src/src/timeman.cpp\<close> and \<^verbatim>\<open>src/unnamed/part_000\<close>. They share \<open>clear\<close>,
  \<open>advance_nodes_time\<close>, the node-time block, the move horizon and \<open>timeLeft\<close>, and
  differ in the early return and in the final clamping. Both are embedded:
  \<open>init_timeman\<close> is the function of \<^verbatim>\<open>timeman.cpp\<close>, \<open>init_part_000\<close> the one of
  \<^verbatim>\<open>part_000\<close>. The free function \<open>calculateTimeBounds\<close> of \<^verbatim>\<open>part_000\<close> is called
  nowhere and is left out.

  Conventions of the embedding.
  \<^item> \<open>TimePoint\<close> and \<open>int64_t\<close> are mathematical integers: signed overflow is
    undefined behaviour in C++, so the model describes the runs without 64-bit
    overflow. The one 32-bit product, \<open>limits.movestogo * 100\<close>, is taken modulo
    \<open>2^32\<close> (\<open>int32\<close>), as the two's-complement build computes it. Integer division is
    C++ division, truncating toward zero (\<open>sdiv\<close>).
  \<^item> \<open>double\<close> is \<open>real\<close>: arithmetic is exact, \<open>std::log10\<close> is \<open>log 10\<close> and
    \<open>std::pow\<close> is \<open>powr\<close>. The reals have no infinity and no NaN, so the model
    follows the C++ values where the argument of \<open>log10\<close> is positive (\<open>timeLeft\<close>
    always is, \<open>scaledTime\<close> is when at least one time unit remains) and the base of
    \<open>pow\<close> is positive (\<open>ply > -3\<close>). The conversion of a double to an integer type
    truncates toward zero; a value outside the range of the integer type, which the
    build converts to the least integer, is outside the model. The theorems below
    about the stored bounds rest on the \<open>min\<close>/\<open>max\<close> clamps only, not on the values of
    the scale factors or of the conversions; a theorem that does depend on them
    carries the ranges in which the model is the program as hypotheses. The concrete
    runs use the moves-to-go branch, whose arithmetic is rational, or logarithms of
    1 and 10.
  \<^item> The object, the limits record and the calibration scalar that \<open>init\<close> mutates
    through references are passed in and returned.
\<close>

datatype Color = WHITE | BLACK

type_synonym TimePoint = int
type_synonym double = real

text \<open>The fields of \<open>Search::LimitsType\<close> that the time manager reads or writes.\<close>

record LimitsType =
  time :: "Color \<Rightarrow> TimePoint"
  inc :: "Color \<Rightarrow> TimePoint"
  npmsec :: TimePoint
  movestogo :: int
  startTime :: TimePoint

record TimeManagement =
  startTime :: TimePoint
  optimumTime :: TimePoint
  maximumTime :: TimePoint
  availableNodes :: int
  useNodesTime :: bool

text \<open>
  \<open>OptionsMap\<close>: \<open>options["name"]\<close> converted to an integer, as \<open>init\<close> reads it
  (a check option reads as 1 when set and 0 otherwise).
\<close>

type_synonym OptionsMap = "string \<Rightarrow> int"

text \<open>
  \<open>TimePoint(x)\<close> and \<open>static_cast<int>(x)\<close> for a finite double \<open>x\<close> whose truncation is
  in the range of the integer type.
\<close>

definition double_to_int :: "double \<Rightarrow> int" where
  "double_to_int x = (if 0 \<le> x then \<lfloor>x\<rfloor> else \<lceil>x\<rceil>)"

section \<open>Accessors, clear and advance\_nodes\_time\<close>

definition optimum :: "TimeManagement \<Rightarrow> TimePoint" where
  "optimum tm = optimumTime tm"

definition maximum :: "TimeManagement \<Rightarrow> TimePoint" where
  "maximum tm = maximumTime tm"

definition clear :: "TimeManagement \<Rightarrow> TimeManagement" where
  "clear tm = tm\<lparr>availableNodes := - 1\<rparr>"

text \<open>\<open>assert(useNodesTime)\<close> is the \<open>None\<close> branch.\<close>

definition advance_nodes_time :: "int \<Rightarrow> TimeManagement \<Rightarrow> TimeManagement option" where
  "advance_nodes_time nodes tm =
     (if useNodesTime tm
      then Some (tm\<lparr>availableNodes := max 0 (availableNodes tm - nodes)\<rparr>)
      else None)"

section \<open>The parts of init that the two files share\<close>

text \<open>
  The body of \<open>if (useNodesTime) { ... }\<close> (timeman.cpp lines 69-76, part\_000 lines
  96-103): seed \<open>availableNodes\<close> while it is \<open>-1\<close>, then rewrite the limits.
\<close>

definition nodes_time_block ::
  "TimePoint \<Rightarrow> Color \<Rightarrow> TimeManagement \<Rightarrow> LimitsType \<Rightarrow> TimeManagement \<times> LimitsType" where
  "nodes_time_block npm us tm limits =
     (let tm = (if availableNodes tm = - 1
                then tm\<lparr>availableNodes := npm * time limits us\<rparr> else tm);
          limits = limits\<lparr>time := (time limits)(us := availableNodes tm)\<rparr>;
          limits = limits\<lparr>inc := (inc limits)(us := inc limits us * npm)\<rparr>;
          limits = limits\<lparr>npmsec := npm\<rparr>
      in (tm, limits))"

text \<open>\<open>scaledTime = limits.time[us] / scaleFactor\<close>, with \<open>scaleFactor = useNodesTime ? npmsec : 1\<close>.\<close>

definition scaleFactor :: "bool \<Rightarrow> TimePoint \<Rightarrow> int" where
  "scaleFactor use npm = (if use then npm else 1)"

definition scaledTime :: "LimitsType \<Rightarrow> Color \<Rightarrow> int \<Rightarrow> TimePoint" where
  "scaledTime limits us sf = time limits us sdiv sf"

text \<open>
  The value of a product of two \<open>int\<close>s: the mathematical product modulo \<open>2^32\<close>, read
  as a signed 32-bit number.
\<close>

definition int32 :: "int \<Rightarrow> int" where
  "int32 k = (k + 2147483648) mod 4294967296 - 2147483648"

text \<open>
  The move horizon (timeman.cpp lines 81-88, part\_000 lines 111-118);
  \<open>limits.movestogo * 100\<close> is a product of \<open>int\<close>s.
\<close>

definition centiMTG :: "int \<Rightarrow> TimePoint \<Rightarrow> int" where
  "centiMTG mtg st =
     (let c = (if mtg \<noteq> 0 then min (int32 (mtg * 100)) 5000 else 5051)
      in if st < 1000 then min c (double_to_int (real_of_int st * 5.051)) else c)"

text \<open>\<open>timeLeft\<close> (timeman.cpp lines 91-93, part\_000 lines 121-123).\<close>

definition timeLeft :: "LimitsType \<Rightarrow> Color \<Rightarrow> int \<Rightarrow> TimePoint \<Rightarrow> TimePoint" where
  "timeLeft limits us cmtg moveOverhead =
     max 1 (time limits us
            + (inc limits us * (cmtg - 100) - moveOverhead * (200 + cmtg)) sdiv 100)"

text \<open>The assignment \<open>originalTimeAdjust = 0.3128 * log10(timeLeft) - 0.4354\<close> under its guard.\<close>

definition adjust :: "double \<Rightarrow> TimePoint \<Rightarrow> double" where
  "adjust originalTimeAdjust tleft =
     (if originalTimeAdjust < 0 then 0.3128 * log 10 (real_of_int tleft) - 0.4354
      else originalTimeAdjust)"

text \<open>
  The moves-to-go branch, the same in both files: \<open>(optScale, maxScale)\<close>, and the
  calibration scalar, which the branch does not touch. The divisor \<open>movesToGo\<close> is
  \<open>0.0\<close> when \<open>centiMTG\<close> is 0. A positive numerator then gives the IEEE quotient
  \<open>+inf\<close>, and \<open>std::min\<close> returns its second argument: that is the first branch
  below. (With a numerator that is not positive the quotient is \<open>-inf\<close> or NaN, which
  the model does not represent.)
\<close>

definition mtg_scales ::
  "LimitsType \<Rightarrow> Color \<Rightarrow> int \<Rightarrow> int \<Rightarrow> TimePoint \<Rightarrow> double \<Rightarrow> double \<times> double \<times> double" where
  "mtg_scales limits us ply cmtg tleft originalTimeAdjust =
     (let movesToGo = real_of_int cmtg / 100;
          cap = 0.88 * real_of_int (time limits us) / real_of_int tleft
      in (if movesToGo = 0 \<and> 0 < 0.88 + real_of_int ply / 116.4 then cap
          else min ((0.88 + real_of_int ply / 116.4) / movesToGo) cap,
          1.3 + 0.11 * movesToGo,
          originalTimeAdjust))"

text \<open>
  The pondering adjustment \<open>optimumTime += optimumTime / 4\<close>. The sum is the
  mathematical one: it is the program's as long as it fits in 64 bits.
\<close>

definition ponder_adjust :: "OptionsMap \<Rightarrow> TimePoint \<Rightarrow> TimePoint" where
  "ponder_adjust options opt =
     (if options ''Ponder'' \<noteq> 0 then opt + opt sdiv 4 else opt)"

section \<open>init of src/src/timeman.cpp\<close>

definition LOG_10_1000 :: double where "LOG_10_1000 = log 10 1000"
definition BASE_OPT_CONSTANT :: double where "BASE_OPT_CONSTANT = 0.0032116"
definition OPT_CONSTANT_FACTOR :: double where "OPT_CONSTANT_FACTOR = 0.000321123"
definition MAX_OPT_CONSTANT :: double where "MAX_OPT_CONSTANT = 0.00508017"
definition BASE_MAX_CONSTANT :: double where "BASE_MAX_CONSTANT = 3.3977"
definition MAX_CONSTANT_FACTOR :: double where "MAX_CONSTANT_FACTOR = 3.03950"
definition MIN_MAX_CONSTANT :: double where "MIN_MAX_CONSTANT = 2.94761"

record TimeConstants =
  optConstant :: double
  maxConstant :: double
  timeLeftFactor :: double

text \<open>The constructor \<open>TimeConstants(logTimeInSec, timeLeft, totalTime)\<close>.\<close>

definition TimeConstants_new :: "double \<Rightarrow> TimePoint \<Rightarrow> TimePoint \<Rightarrow> TimeConstants" where
  "TimeConstants_new logTimeInSec tleft totalTime =
     \<lparr>optConstant = min (BASE_OPT_CONSTANT + OPT_CONSTANT_FACTOR * logTimeInSec) MAX_OPT_CONSTANT,
      maxConstant = max (BASE_MAX_CONSTANT + MAX_CONSTANT_FACTOR * logTimeInSec) MIN_MAX_CONSTANT,
      timeLeftFactor = real_of_int totalTime / real_of_int tleft\<rparr>"

text \<open>
  The sudden-death branch of timeman.cpp (lines 98-109):
  \<open>(optScale, maxScale)\<close> and the calibration scalar. For \<open>scaledTime \<le> 0\<close> the
  program's \<open>std::log10(scaledTime)\<close> is \<open>-inf\<close> or NaN, and so is its \<open>optScale\<close>; the
  model's values are the program's for \<open>scaledTime \<ge> 1\<close>.
\<close>

definition sd_scales_timeman ::
  "LimitsType \<Rightarrow> Color \<Rightarrow> int \<Rightarrow> TimePoint \<Rightarrow> TimePoint \<Rightarrow> double \<Rightarrow> double \<times> double \<times> double" where
  "sd_scales_timeman limits us ply st tleft originalTimeAdjust =
     (let originalTimeAdjust = adjust originalTimeAdjust tleft;
          tc = TimeConstants_new (log 10 (real_of_int st) - LOG_10_1000) tleft (time limits us)
      in (min (0.0121431 + (real_of_int ply + 2.94693) powr 0.461073 * optConstant tc)
              (0.213035 * timeLeftFactor tc) * originalTimeAdjust,
          min 6.67704 (maxConstant tc + real_of_int ply / 11.9847),
          originalTimeAdjust))"

text \<open>The final bounds of timeman.cpp (lines 120-126): \<open>(optimumTime, maximumTime)\<close>.\<close>

definition bounds_timeman ::
  "LimitsType \<Rightarrow> Color \<Rightarrow> TimePoint \<Rightarrow> TimePoint \<Rightarrow> double \<Rightarrow> double \<Rightarrow> TimePoint \<times> TimePoint" where
  "bounds_timeman limits us moveOverhead tleft optScale maxScale =
     (let opt = double_to_int (optScale * real_of_int tleft);
          mx = double_to_int (min (0.825179 * real_of_int (time limits us) - real_of_int moveOverhead)
                                  (maxScale * real_of_int opt)) - 10;
          maxCap = double_to_int (0.20 * real_of_int (time limits us));
          mx = max 1 (min mx maxCap)
      in (opt, mx))"

text \<open>
  Lines 78-130 of timeman.cpp, which read the limits as the node-time block left them
  and touch no other state: \<open>(optimumTime, maximumTime, originalTimeAdjust)\<close>.
\<close>

definition plan_timeman ::
  "LimitsType \<Rightarrow> Color \<Rightarrow> int \<Rightarrow> OptionsMap \<Rightarrow> TimePoint \<Rightarrow> int \<Rightarrow> double
     \<Rightarrow> TimePoint \<times> TimePoint \<times> double" where
  "plan_timeman limits us ply options moveOverhead sf originalTimeAdjust =
     (let st = scaledTime limits us sf;
          cmtg = centiMTG (movestogo limits) st;
          tleft = timeLeft limits us cmtg moveOverhead;
          (optScale, maxScale, originalTimeAdjust) =
             (if movestogo limits = 0
              then sd_scales_timeman limits us ply st tleft originalTimeAdjust
              else mtg_scales limits us ply cmtg tleft originalTimeAdjust);
          (opt, mx) = bounds_timeman limits us moveOverhead tleft optScale maxScale
      in (ponder_adjust options opt, mx, originalTimeAdjust))"

definition init_timeman ::
  "TimeManagement \<Rightarrow> LimitsType \<Rightarrow> Color \<Rightarrow> int \<Rightarrow> OptionsMap \<Rightarrow> double
     \<Rightarrow> TimeManagement \<times> LimitsType \<times> double" where
  "init_timeman tm limits us ply options originalTimeAdjust =
     (let npm = options ''nodestime'';
          tm = tm\<lparr>startTime := LimitsType.startTime limits\<rparr>;
          tm = tm\<lparr>useNodesTime := (npm \<noteq> 0)\<rparr>
      in if time limits us = 0 then (tm, limits, originalTimeAdjust)
         else
           let moveOverhead = options ''Move Overhead'';
               sf = scaleFactor (useNodesTime tm) npm;
               (tm, limits) = (if useNodesTime tm then nodes_time_block npm us tm limits
                               else (tm, limits));
               (opt, mx, originalTimeAdjust) =
                  plan_timeman limits us ply options moveOverhead sf originalTimeAdjust
           in (tm\<lparr>optimumTime := opt, maximumTime := mx\<rparr>, limits, originalTimeAdjust))"

section \<open>init of src/unnamed/part\_000\<close>

text \<open>
  The sudden-death branch of part\_000 (lines 127-143):
  \<open>(optScale, maxScale)\<close> and the calibration scalar. As in timeman.cpp, the model's
  values are the program's for \<open>scaledTime \<ge> 1\<close>.
\<close>

definition sd_scales_part_000 ::
  "LimitsType \<Rightarrow> Color \<Rightarrow> int \<Rightarrow> TimePoint \<Rightarrow> TimePoint \<Rightarrow> double \<Rightarrow> double \<times> double \<times> double" where
  "sd_scales_part_000 limits us ply st tleft originalTimeAdjust =
     (let originalTimeAdjust = adjust originalTimeAdjust tleft;
          logTimeInSec = log 10 (real_of_int st / 1000);
          optConstant = min (0.0032116 + 0.000321123 * logTimeInSec) 0.00508017;
          maxConstant = max (3.3977 + 3.03950 * logTimeInSec) 2.94761;
          timeLeftFactor = real_of_int (time limits us) / real_of_int tleft
      in (min (0.0121431 + (real_of_int ply + 2.94693) powr 0.461073 * optConstant)
              (0.213035 * timeLeftFactor) * originalTimeAdjust,
          min 6.67704 (maxConstant + real_of_int ply / 11.9847),
          originalTimeAdjust))"

text \<open>
  The lambda \<open>calculateBounds(time, scale)\<close> of part\_000 (lines 154-158); its first
  parameter is unused.
\<close>

definition calculateBounds ::
  "LimitsType \<Rightarrow> Color \<Rightarrow> TimePoint \<Rightarrow> double \<Rightarrow> TimePoint \<Rightarrow> double \<Rightarrow> TimePoint" where
  "calculateBounds limits us tleft optScale t scale =
     max 1 (min (double_to_int (scale * real_of_int (time limits us)))
                (double_to_int (optScale * real_of_int tleft)))"

text \<open>The final bounds of part\_000 (lines 160-164): \<open>(optimumTime, maximumTime)\<close>.\<close>

definition bounds_part_000 ::
  "LimitsType \<Rightarrow> Color \<Rightarrow> TimePoint \<Rightarrow> TimePoint \<Rightarrow> double \<Rightarrow> double \<Rightarrow> TimePoint \<times> TimePoint" where
  "bounds_part_000 limits us moveOverhead tleft optScale maxScale =
     (let opt = calculateBounds limits us tleft optScale tleft 0.20;
          mx = max opt
                 (min (double_to_int (0.30 * real_of_int (time limits us)))
                      (double_to_int
                         (min (0.825179 * real_of_int (time limits us) - real_of_int moveOverhead)
                              (maxScale * real_of_int opt))))
      in (opt, mx))"

text \<open>
  Lines 108-169 of part\_000, which read the limits as the node-time block left them
  and touch no other state: \<open>(optimumTime, maximumTime, originalTimeAdjust)\<close>.
\<close>

definition plan_part_000 ::
  "LimitsType \<Rightarrow> Color \<Rightarrow> int \<Rightarrow> OptionsMap \<Rightarrow> TimePoint \<Rightarrow> int \<Rightarrow> double
     \<Rightarrow> TimePoint \<times> TimePoint \<times> double" where
  "plan_part_000 limits us ply options moveOverhead sf originalTimeAdjust =
     (let st = scaledTime limits us sf;
          cmtg = centiMTG (movestogo limits) st;
          tleft = timeLeft limits us cmtg moveOverhead;
          (optScale, maxScale, originalTimeAdjust) =
             (if movestogo limits = 0
              then sd_scales_part_000 limits us ply st tleft originalTimeAdjust
              else mtg_scales limits us ply cmtg tleft originalTimeAdjust);
          (opt, mx) = bounds_part_000 limits us moveOverhead tleft optScale maxScale
      in (ponder_adjust options opt, mx, originalTimeAdjust))"

definition init_part_000 ::
  "TimeManagement \<Rightarrow> LimitsType \<Rightarrow> Color \<Rightarrow> int \<Rightarrow> OptionsMap \<Rightarrow> double
     \<Rightarrow> TimeManagement \<times> LimitsType \<times> double" where
  "init_part_000 tm limits us ply options originalTimeAdjust =
     (let tm = tm\<lparr>startTime := LimitsType.startTime limits\<rparr>
      in if time limits us = 0 then (tm\<lparr>useNodesTime := False\<rparr>, limits, originalTimeAdjust)
         else
           let npm = options ''nodestime'';
               tm = tm\<lparr>useNodesTime := (npm \<noteq> 0)\<rparr>;
               (tm, limits) = (if useNodesTime tm then nodes_time_block npm us tm limits
                               else (tm, limits));
               sf = scaleFactor (useNodesTime tm) npm;
               moveOverhead = options ''Move Overhead'';
               (opt, mx, originalTimeAdjust) =
                  plan_part_000 limits us ply options moveOverhead sf originalTimeAdjust
           in (tm\<lparr>optimumTime := opt, maximumTime := mx\<rparr>, limits, originalTimeAdjust))"

section \<open>Concrete inputs\<close>

text \<open>
  A planner object before the first game, the limits of a \<open>go\<close> command in which both
  sides have the same clock, and an options map with the three values that \<open>init\<close>
  reads.
\<close>

definition fresh :: TimeManagement where
  "fresh = \<lparr>startTime = 0, optimumTime = 0, maximumTime = 0, availableNodes = 0,
            useNodesTime = False\<rparr>"

definition go_limits :: "TimePoint \<Rightarrow> TimePoint \<Rightarrow> int \<Rightarrow> LimitsType" where
  "go_limits t i mtg =
     \<lparr>time = (\<lambda>c. t), inc = (\<lambda>c. i), npmsec = 0, movestogo = mtg, startTime = 0\<rparr>"

definition options_of :: "int \<Rightarrow> int \<Rightarrow> int \<Rightarrow> OptionsMap" where
  "options_of nodestime moveOverhead ponder =
     (\<lambda>name. if name = ''nodestime'' then nodestime
             else if name = ''Move Overhead'' then moveOverhead
             else if name = ''Ponder'' then ponder else 0)"

section \<open>Lemmas about the model\<close>

subsection \<open>Selectors of the concrete inputs\<close>

lemma go_limits_sel:
  "time (go_limits t i m) c = t" "inc (go_limits t i m) c = i"
  "movestogo (go_limits t i m) = m" "npmsec (go_limits t i m) = 0"
  "LimitsType.startTime (go_limits t i m) = 0"
  by (simp_all add: go_limits_def)

lemma options_of_sel:
  "options_of n mo p ''nodestime'' = n" "options_of n mo p ''Move Overhead'' = mo"
  "options_of n mo p ''Ponder'' = p"
  by (simp_all add: options_of_def)

lemma fresh_sel:
  "optimumTime fresh = 0" "maximumTime fresh = 0" "availableNodes fresh = 0"
  "useNodesTime fresh = False" "TimeManagement.startTime fresh = 0"
  by (simp_all add: fresh_def)

subsection \<open>The shape of a call\<close>

lemma nodes_time_block_eq:
  "nodes_time_block npm us tm limits =
     (tm\<lparr>availableNodes := (if availableNodes tm = - 1 then npm * time limits us
                            else availableNodes tm)\<rparr>,
     limits\<lparr>time := (time limits)(us := (if availableNodes tm = - 1 then npm * time limits us
                            else availableNodes tm)),
            inc := (inc limits)(us := inc limits us * npm), npmsec := npm\<rparr>)"
  by (simp add: nodes_time_block_def Let_def)

lemma init_part_000_zero:
  "time limits us = 0 \<Longrightarrow> init_part_000 tm limits us ply options ota =
     (tm\<lparr>startTime := LimitsType.startTime limits, useNodesTime := False\<rparr>, limits, ota)"
  by (simp add: init_part_000_def)

lemma init_timeman_zero:
  "time limits us = 0 \<Longrightarrow> init_timeman tm limits us ply options ota =
     (tm\<lparr>startTime := LimitsType.startTime limits, useNodesTime := (options ''nodestime'' \<noteq> 0)\<rparr>,
      limits, ota)"
  by (simp add: init_timeman_def)

lemma init_part_000_clock:
  "time limits us \<noteq> 0 \<Longrightarrow> options ''nodestime'' = 0 \<Longrightarrow>
   init_part_000 tm limits us ply options ota =
     (case plan_part_000 limits us ply options (options ''Move Overhead'') 1 ota of
        (opt, mx, ota') \<Rightarrow>
          (tm\<lparr>startTime := LimitsType.startTime limits, useNodesTime := False,
              optimumTime := opt, maximumTime := mx\<rparr>, limits, ota'))"
  by (simp add: init_part_000_def Let_def scaleFactor_def split_def)

lemma init_part_000_nodes:
  "time limits us \<noteq> 0 \<Longrightarrow> options ''nodestime'' \<noteq> 0 \<Longrightarrow>
   init_part_000 tm limits us ply options ota =
     (case nodes_time_block (options ''nodestime'') us
             (tm\<lparr>startTime := LimitsType.startTime limits, useNodesTime := True\<rparr>) limits of
        (tm', limits') \<Rightarrow>
     (case plan_part_000 limits' us ply options (options ''Move Overhead'') (options ''nodestime'') ota of
        (opt, mx, ota') \<Rightarrow>
          (tm'\<lparr>optimumTime := opt, maximumTime := mx\<rparr>, limits', ota')))"
  by (simp add: init_part_000_def Let_def scaleFactor_def split_def nodes_time_block_eq)

lemma init_timeman_clock:
  "time limits us \<noteq> 0 \<Longrightarrow> options ''nodestime'' = 0 \<Longrightarrow>
   init_timeman tm limits us ply options ota =
     (case plan_timeman limits us ply options (options ''Move Overhead'') 1 ota of
        (opt, mx, ota') \<Rightarrow>
          (tm\<lparr>startTime := LimitsType.startTime limits, useNodesTime := False,
              optimumTime := opt, maximumTime := mx\<rparr>, limits, ota'))"
  by (simp add: init_timeman_def Let_def scaleFactor_def split_def)

lemma init_timeman_nodes:
  "time limits us \<noteq> 0 \<Longrightarrow> options ''nodestime'' \<noteq> 0 \<Longrightarrow>
   init_timeman tm limits us ply options ota =
     (case nodes_time_block (options ''nodestime'') us
             (tm\<lparr>startTime := LimitsType.startTime limits, useNodesTime := True\<rparr>) limits of
        (tm', limits') \<Rightarrow>
     (case plan_timeman limits' us ply options (options ''Move Overhead'') (options ''nodestime'') ota of
        (opt, mx, ota') \<Rightarrow>
          (tm'\<lparr>optimumTime := opt, maximumTime := mx\<rparr>, limits', ota')))"
  by (simp add: init_timeman_def Let_def scaleFactor_def split_def nodes_time_block_eq)

subsection \<open>Conversions, division and the pondering adjustment\<close>



lemma sdiv4_nonneg: "0 \<le> a \<Longrightarrow> a sdiv 4 = a div 4" for a :: int
  by (simp add: signed_divide_int_def sgn_if)

lemma ponder_adjust_off: "ponder_adjust (options(''Ponder'' := 0)) p = p"
  by (simp add: ponder_adjust_def)

lemma ponder_adjust_on: "options ''Ponder'' \<noteq> 0 \<Longrightarrow> ponder_adjust options p = p + p sdiv 4"
  by (simp add: ponder_adjust_def)

lemma ponder_adjust_ge: "0 \<le> p \<Longrightarrow> p \<le> ponder_adjust options p"
  by (simp add: ponder_adjust_def sdiv4_nonneg pos_imp_zdiv_nonneg_iff)

subsection \<open>The plan and the clamps\<close>

text \<open>The three results of the plan with the pondering adjustment taken out.\<close>

lemma plan_part_000_ponder:
  "plan_part_000 limits us ply options mo sf ota =
     (case plan_part_000 limits us ply (options(''Ponder'' := 0)) mo sf ota of
        (opt, mx, ota') \<Rightarrow> (ponder_adjust options opt, mx, ota'))"
  by (simp add: plan_part_000_def Let_def split_def ponder_adjust_off)

lemma plan_timeman_ponder:
  "plan_timeman limits us ply options mo sf ota =
     (case plan_timeman limits us ply (options(''Ponder'' := 0)) mo sf ota of
        (opt, mx, ota') \<Rightarrow> (ponder_adjust options opt, mx, ota'))"
  by (simp add: plan_timeman_def Let_def split_def ponder_adjust_off)

lemma bounds_part_000_order:
  "1 \<le> fst (bounds_part_000 limits us mo tleft os ms)
   \<and> fst (bounds_part_000 limits us mo tleft os ms) \<le> snd (bounds_part_000 limits us mo tleft os ms)"
  by (simp add: bounds_part_000_def calculateBounds_def Let_def)

lemma bounds_timeman_ge1: "1 \<le> snd (bounds_timeman limits us mo tleft os ms)"
  by (simp add: bounds_timeman_def Let_def)



lemma plan_part_000_order:
  "1 \<le> fst (plan_part_000 limits us ply (options(''Ponder'' := 0)) mo sf ota)
   \<and> fst (plan_part_000 limits us ply (options(''Ponder'' := 0)) mo sf ota)
       \<le> fst (snd (plan_part_000 limits us ply options mo sf ota))"
  using bounds_part_000_order
  by (simp add: plan_part_000_def Let_def split_def ponder_adjust_off)

lemma plan_timeman_ge1: "1 \<le> fst (snd (plan_timeman limits us ply options mo sf ota))"
  using bounds_timeman_ge1 by (simp add: plan_timeman_def Let_def split_def)



text \<open>What a call with nonzero remaining time stores, in terms of the plan.\<close>

lemma init_part_000_plan:
  assumes "time limits us \<noteq> 0"
  shows "optimum (fst (init_part_000 tm limits us ply options ota))
           = fst (plan_part_000 (fst (snd (init_part_000 tm limits us ply options ota))) us ply
                   options (options ''Move Overhead'')
                   (scaleFactor (options ''nodestime'' \<noteq> 0) (options ''nodestime'')) ota)"
    and "maximum (fst (init_part_000 tm limits us ply options ota))
           = fst (snd (plan_part_000 (fst (snd (init_part_000 tm limits us ply options ota))) us ply
                   options (options ''Move Overhead'')
                   (scaleFactor (options ''nodestime'' \<noteq> 0) (options ''nodestime'')) ota))"
    and "snd (snd (init_part_000 tm limits us ply options ota))
           = snd (snd (plan_part_000 (fst (snd (init_part_000 tm limits us ply options ota))) us ply
                   options (options ''Move Overhead'')
                   (scaleFactor (options ''nodestime'' \<noteq> 0) (options ''nodestime'')) ota))"
  using assms
  by (cases "options ''nodestime'' = 0";
      simp add: init_part_000_clock init_part_000_nodes split_def scaleFactor_def optimum_def
        maximum_def)+

lemma init_timeman_plan:
  assumes "time limits us \<noteq> 0"
  shows "optimum (fst (init_timeman tm limits us ply options ota))
           = fst (plan_timeman (fst (snd (init_timeman tm limits us ply options ota))) us ply
                   options (options ''Move Overhead'')
                   (scaleFactor (options ''nodestime'' \<noteq> 0) (options ''nodestime'')) ota)"
    and "maximum (fst (init_timeman tm limits us ply options ota))
           = fst (snd (plan_timeman (fst (snd (init_timeman tm limits us ply options ota))) us ply
                   options (options ''Move Overhead'')
                   (scaleFactor (options ''nodestime'' \<noteq> 0) (options ''nodestime'')) ota))"
    and "snd (snd (init_timeman tm limits us ply options ota))
           = snd (snd (plan_timeman (fst (snd (init_timeman tm limits us ply options ota))) us ply
                   options (options ''Move Overhead'')
                   (scaleFactor (options ''nodestime'' \<noteq> 0) (options ''nodestime'')) ota))"
  using assms
  by (cases "options ''nodestime'' = 0";
      simp add: init_timeman_clock init_timeman_nodes split_def scaleFactor_def optimum_def
        maximum_def)+

text \<open>The limits that a call returns do not depend on the pondering option.\<close>

lemma init_limits_ponder:
  "fst (snd (init_part_000 tm limits us ply (options(''Ponder'' := p)) ota))
     = fst (snd (init_part_000 tm limits us ply options ota))"
  "fst (snd (init_timeman tm limits us ply (options(''Ponder'' := p)) ota))
     = fst (snd (init_timeman tm limits us ply options ota))"
  by (cases "time limits us = 0"; cases "options ''nodestime'' = 0";
      simp add: init_part_000_zero init_part_000_clock init_part_000_nodes
        init_timeman_zero init_timeman_clock init_timeman_nodes split_def)+

lemma init_limits_same:
  "fst (snd (init_timeman tm limits us ply options ota))
     = fst (snd (init_part_000 tm limits us ply options ota))"
  by (cases "time limits us = 0"; cases "options ''nodestime'' = 0";
      simp add: init_part_000_zero init_part_000_clock init_part_000_nodes
        init_timeman_zero init_timeman_clock init_timeman_nodes split_def nodes_time_block_eq)

text \<open>A call with pondering enabled against the same call with pondering disabled.\<close>

lemma init_part_000_ponder:
  assumes "time limits us \<noteq> 0"
  shows "optimum (fst (init_part_000 tm limits us ply options ota))
           = ponder_adjust options
               (optimum (fst (init_part_000 tm limits us ply (options(''Ponder'' := 0)) ota)))"
    and "maximum (fst (init_part_000 tm limits us ply options ota))
           = maximum (fst (init_part_000 tm limits us ply (options(''Ponder'' := 0)) ota))"
  using assms
  by (simp_all add: init_part_000_plan init_limits_ponder
      plan_part_000_ponder [of _ _ _ options] split_def)

lemma init_timeman_ponder:
  assumes "time limits us \<noteq> 0"
  shows "optimum (fst (init_timeman tm limits us ply options ota))
           = ponder_adjust options
               (optimum (fst (init_timeman tm limits us ply (options(''Ponder'' := 0)) ota)))"
    and "maximum (fst (init_timeman tm limits us ply options ota))
           = maximum (fst (init_timeman tm limits us ply (options(''Ponder'' := 0)) ota))"
  using assms
  by (simp_all add: init_timeman_plan init_limits_ponder
      plan_timeman_ponder [of _ _ _ options] split_def)

lemma init_part_000_order:
  assumes "time limits us \<noteq> 0"
  shows "1 \<le> optimum (fst (init_part_000 tm limits us ply (options(''Ponder'' := 0)) ota))"
    and "optimum (fst (init_part_000 tm limits us ply (options(''Ponder'' := 0)) ota))
           \<le> maximum (fst (init_part_000 tm limits us ply options ota))"
  using assms plan_part_000_order
  by (simp_all add: init_part_000_plan init_limits_ponder init_part_000_ponder(2) [of _ _ _ _ options])

subsection \<open>The calibration scalar\<close>

lemma plan_originalTimeAdjust:
  "snd (snd (plan_part_000 limits us ply options mo sf ota))
     = (if movestogo limits = 0
        then adjust ota (timeLeft limits us (centiMTG (movestogo limits) (scaledTime limits us sf)) mo)
        else ota)"
  "snd (snd (plan_timeman limits us ply options mo sf ota))
     = (if movestogo limits = 0
        then adjust ota (timeLeft limits us (centiMTG (movestogo limits) (scaledTime limits us sf)) mo)
        else ota)"
  by (simp_all add: plan_part_000_def plan_timeman_def Let_def split_def sd_scales_part_000_def
      sd_scales_timeman_def mtg_scales_def)

lemma init_movestogo:
  "movestogo (fst (snd (init_part_000 tm limits us ply options ota))) = movestogo limits"
  by (cases "time limits us = 0"; cases "options ''nodestime'' = 0";
      simp add: init_part_000_zero init_part_000_clock init_part_000_nodes split_def
        nodes_time_block_eq)

lemma init_originalTimeAdjust:
  assumes "time limits us \<noteq> 0"
  shows "snd (snd (init_part_000 tm limits us ply options ota))
     = (if movestogo limits = 0
        then adjust ota
          (timeLeft (fst (snd (init_part_000 tm limits us ply options ota))) us
             (centiMTG 0 (scaledTime (fst (snd (init_part_000 tm limits us ply options ota))) us
                (scaleFactor (options ''nodestime'' \<noteq> 0) (options ''nodestime''))))
             (options ''Move Overhead''))
        else ota)"
   and "snd (snd (init_timeman tm limits us ply options ota))
     = snd (snd (init_part_000 tm limits us ply options ota))"
  using assms
  by (simp_all add: init_part_000_plan(3) init_timeman_plan(3) plan_originalTimeAdjust
      init_movestogo init_limits_same)

lemma log10_24: "13 * log 10 24 < 18"
proof -
  have "(24::real) ^ 13 < 10 ^ 18" by simp
  then have "log 10 ((24::real) ^ 13) < log 10 (10 ^ 18)"
    by (subst log_less_cancel_iff) simp_all
  moreover have "log 10 ((24::real) ^ 13) = 13 * log 10 24"
    by (subst log_nat_power) simp_all
  moreover have "log 10 ((10::real) ^ 18) = 18"
    by (subst log_nat_power) simp_all
  ultimately show ?thesis by (simp only:)
qed

lemma log10_25: "39 \<le> 28 * log 10 25"
proof -
  have "(10::real) ^ 39 \<le> 25 ^ 28" by simp
  then have "log 10 ((10::real) ^ 39) \<le> log 10 (25 ^ 28)"
    by (subst log_le_cancel_iff) simp_all
  moreover have "log 10 ((25::real) ^ 28) = 28 * log 10 25"
    by (subst log_nat_power) simp_all
  moreover have "log 10 ((10::real) ^ 39) = 39"
    by (subst log_nat_power) simp_all
  ultimately show ?thesis by (simp only:)
qed

lemma calibration_sign:
  assumes "1 \<le> t"
  shows "(0.3128 * log 10 (real_of_int t) - 0.4354 < 0) = (t \<le> 24)"
proof (cases "t \<le> 24")
  case True
  then have "log 10 (real_of_int t) \<le> log 10 24"
    using assms by (subst log_le_cancel_iff) simp_all
  with log10_24 have "0.3128 * log 10 (real_of_int t) - 0.4354 < 0" by simp
  with True show ?thesis by simp
next
  case False
  then have "log 10 25 \<le> log 10 (real_of_int t)"
    by (subst log_le_cancel_iff) simp_all
  with log10_25 have "\<not> 0.3128 * log 10 (real_of_int t) - 0.4354 < 0" by simp
  with False show ?thesis by simp
qed

subsection \<open>The divisors\<close>

lemma timeLeft_ge1: "1 \<le> timeLeft limits us cmtg mo"
  by (simp add: timeLeft_def)

lemma sdiv_ge1: "0 < sf \<Longrightarrow> sf \<le> t \<Longrightarrow> 1 \<le> t sdiv sf" for sf t :: int
  using pos_imp_zdiv_pos_iff [of sf t] by (simp add: signed_divide_int_def sgn_if)

lemma int32_id: "- 2147483648 \<le> k \<Longrightarrow> k < 2147483648 \<Longrightarrow> int32 k = k"
  by (simp add: int32_def)

lemma int32_times_100:
  "- 21474836 \<le> mtg \<Longrightarrow> mtg \<le> 21474836 \<Longrightarrow> int32 (mtg * 100) = mtg * 100"
  by (intro int32_id) simp_all

lemma centiMTG_ge5:
  assumes "0 \<le> mtg" and "mtg \<le> 21474836" and "1 \<le> st"
  shows "5 \<le> centiMTG mtg st"
proof -
  have "5 \<le> real_of_int st * 5.051" using assms(3) by simp
  then have "5 \<le> double_to_int (real_of_int st * 5.051)"
    by (simp add: double_to_int_def le_floor_iff)
  then show ?thesis
    using assms(1,2) by (simp add: centiMTG_def Let_def int32_times_100)
qed

lemma centiMTG_zero: "0 \<le> mtg \<Longrightarrow> mtg \<le> 21474836 \<Longrightarrow> centiMTG mtg 0 = 0"
  by (simp add: centiMTG_def Let_def double_to_int_def int32_times_100)

subsection \<open>Concrete runs\<close>

text \<open>Evaluating the plan of a moves-to-go call step by step.\<close>

lemma plan_part_000_mtg:
  assumes "movestogo limits \<noteq> 0"
    and "centiMTG (movestogo limits) (scaledTime limits us sf) = cmtg"
    and "timeLeft limits us cmtg mo = tleft"
    and "mtg_scales limits us ply cmtg tleft ota = (os, ms, ota')"
    and "bounds_part_000 limits us mo tleft os ms = (opt, mx)"
  shows "plan_part_000 limits us ply options mo sf ota = (ponder_adjust options opt, mx, ota')"
  using assms by (simp add: plan_part_000_def)

lemma plan_timeman_mtg:
  assumes "movestogo limits \<noteq> 0"
    and "centiMTG (movestogo limits) (scaledTime limits us sf) = cmtg"
    and "timeLeft limits us cmtg mo = tleft"
    and "mtg_scales limits us ply cmtg tleft ota = (os, ms, ota')"
    and "bounds_timeman limits us mo tleft os ms = (opt, mx)"
  shows "plan_timeman limits us ply options mo sf ota = (ponder_adjust options opt, mx, ota')"
  using assms by (simp add: plan_timeman_def)

lemmas eval_defs = centiMTG_def int32_def scaledTime_def timeLeft_def mtg_scales_def bounds_part_000_def
  bounds_timeman_def calculateBounds_def double_to_int_def signed_divide_int_def go_limits_sel

text \<open>1000 ms on the clock, 3210 ms increment, 2 moves to go, 800 ms overhead.\<close>

lemma plan_part_000_A:
  "plan_part_000 (go_limits 1000 3210 2) WHITE 0 options 800 1 (- 1)
     = (ponder_adjust options 200, 200, - 1)"
proof (rule plan_part_000_mtg)
  show "movestogo (go_limits 1000 3210 2) \<noteq> 0" by (simp add: go_limits_sel)
  show "centiMTG (movestogo (go_limits 1000 3210 2)) (scaledTime (go_limits 1000 3210 2) WHITE 1) = 200"
    by (simp add: eval_defs)
  show "timeLeft (go_limits 1000 3210 2) WHITE 200 800 = 1010" by (simp add: eval_defs)
  show "mtg_scales (go_limits 1000 3210 2) WHITE 0 200 1010 (- 1) = (0.44, 1.52, - 1)"
    by (simp add: eval_defs)
  show "bounds_part_000 (go_limits 1000 3210 2) WHITE 800 1010 0.44 1.52 = (200, 200)"
    by (simp add: eval_defs)
qed

lemma plan_timeman_A:
  "plan_timeman (go_limits 1000 3210 2) WHITE 0 options 800 1 (- 1)
     = (ponder_adjust options 444, 15, - 1)"
proof (rule plan_timeman_mtg)
  show "movestogo (go_limits 1000 3210 2) \<noteq> 0" by (simp add: go_limits_sel)
  show "centiMTG (movestogo (go_limits 1000 3210 2)) (scaledTime (go_limits 1000 3210 2) WHITE 1) = 200"
    by (simp add: eval_defs)
  show "timeLeft (go_limits 1000 3210 2) WHITE 200 800 = 1010" by (simp add: eval_defs)
  show "mtg_scales (go_limits 1000 3210 2) WHITE 0 200 1010 (- 1) = (0.44, 1.52, - 1)"
    by (simp add: eval_defs)
  show "bounds_timeman (go_limits 1000 3210 2) WHITE 800 1010 0.44 1.52 = (444, 15)"
    by (simp add: eval_defs)
qed

text \<open>1 ms on the clock, 1 move to go.\<close>

lemma plan_timeman_B:
  "plan_timeman (go_limits 1 0 1) WHITE 0 options 0 1 (- 1) = (ponder_adjust options 0, 1, - 1)"
proof (rule plan_timeman_mtg)
  show "movestogo (go_limits 1 0 1) \<noteq> 0" by (simp add: go_limits_sel)
  show "centiMTG (movestogo (go_limits 1 0 1)) (scaledTime (go_limits 1 0 1) WHITE 1) = 5"
    by (simp add: eval_defs)
  show "timeLeft (go_limits 1 0 1) WHITE 5 0 = 1" by (simp add: eval_defs)
  show "mtg_scales (go_limits 1 0 1) WHITE 0 5 1 (- 1) = (0.88, 1.3055, - 1)"
    by (simp add: eval_defs)
  show "bounds_timeman (go_limits 1 0 1) WHITE 0 1 0.88 1.3055 = (0, 1)"
    by (simp add: eval_defs)
qed

text \<open>4 ms on the clock, 1 move to go.\<close>

lemma plan_part_000_C:
  "plan_part_000 (go_limits 4 0 1) WHITE 0 options 0 1 (- 1) = (ponder_adjust options 1, 1, - 1)"
proof (rule plan_part_000_mtg)
  show "movestogo (go_limits 4 0 1) \<noteq> 0" by (simp add: go_limits_sel)
  show "centiMTG (movestogo (go_limits 4 0 1)) (scaledTime (go_limits 4 0 1) WHITE 1) = 20"
    by (simp add: eval_defs)
  show "timeLeft (go_limits 4 0 1) WHITE 20 0 = 4" by (simp add: eval_defs)
  show "mtg_scales (go_limits 4 0 1) WHITE 0 20 4 (- 1) = (0.88, 1.322, - 1)"
    by (simp add: eval_defs)
  show "bounds_part_000 (go_limits 4 0 1) WHITE 0 4 0.88 1.322 = (1, 1)"
    by (simp add: eval_defs)
qed

text \<open>1010 ms on the clock, 2 moves to go.\<close>

lemma plan_part_000_D:
  "plan_part_000 (go_limits 1010 0 2) WHITE 0 options 0 1 (- 1)
     = (ponder_adjust options 202, 303, - 1)"
proof (rule plan_part_000_mtg)
  show "movestogo (go_limits 1010 0 2) \<noteq> 0" by (simp add: go_limits_sel)
  show "centiMTG (movestogo (go_limits 1010 0 2)) (scaledTime (go_limits 1010 0 2) WHITE 1) = 200"
    by (simp add: eval_defs)
  show "timeLeft (go_limits 1010 0 2) WHITE 200 0 = 1010" by (simp add: eval_defs)
  show "mtg_scales (go_limits 1010 0 2) WHITE 0 200 1010 (- 1) = (0.44, 1.52, - 1)"
    by (simp add: eval_defs)
  show "bounds_part_000 (go_limits 1010 0 2) WHITE 0 1010 0.44 1.52 = (202, 303)"
    by (simp add: eval_defs)
qed

lemmas clock_eval = init_part_000_clock init_timeman_clock go_limits_sel options_of_sel
  optimum_def maximum_def ponder_adjust_def signed_divide_int_def

lemma init_clock_limits:
  "time limits us \<noteq> 0 \<Longrightarrow> options ''nodestime'' = 0 \<Longrightarrow>
   fst (snd (init_part_000 tm limits us ply options ota)) = limits"
  by (simp add: init_part_000_clock split_def)

lemma timeLeft_10: "timeLeft (go_limits 10 0 0) WHITE (centiMTG 0 (scaledTime (go_limits 10 0 0) WHITE 1)) 0 = 10"
  by (simp add: eval_defs)

lemma timeLeft_1: "timeLeft (go_limits 1 0 0) WHITE (centiMTG 0 (scaledTime (go_limits 1 0 0) WHITE 1)) 0 = 1"
  by (simp add: eval_defs)

section \<open>The order of the stored bounds\<close>

text \<open>
  C1 (amended). After a call of \<open>init\<close> with nonzero remaining time for the side to
  move: in part\_000, \<open>optimum() \<ge> 1\<close> and \<open>maximum() \<ge> 1\<close>, and \<open>maximum()\<close> is at least
  the optimum of the same call with pondering disabled, so \<open>maximum() \<ge> optimum()\<close>
  whenever pondering is disabled; in timeman.cpp \<open>maximum() \<ge> 1\<close>.
\<close>

theorem bounds_order:
  assumes "time limits us \<noteq> 0"
  shows "1 \<le> optimum (fst (init_part_000 tm limits us ply options ota))
       \<and> 1 \<le> maximum (fst (init_part_000 tm limits us ply options ota))
       \<and> optimum (fst (init_part_000 tm limits us ply (options(''Ponder'' := 0)) ota))
           \<le> maximum (fst (init_part_000 tm limits us ply options ota))
       \<and> (options ''Ponder'' = 0 \<longrightarrow>
            optimum (fst (init_part_000 tm limits us ply options ota))
              \<le> maximum (fst (init_part_000 tm limits us ply options ota)))
       \<and> 1 \<le> maximum (fst (init_timeman tm limits us ply options ota))"
proof -
  let ?p = "optimum (fst (init_part_000 tm limits us ply (options(''Ponder'' := 0)) ota))"
  have p1: "1 \<le> ?p" and pm: "?p \<le> maximum (fst (init_part_000 tm limits us ply options ota))"
    using init_part_000_order [OF assms] by blast+
  have o: "optimum (fst (init_part_000 tm limits us ply options ota)) = ponder_adjust options ?p"
    by (rule init_part_000_ponder(1) [OF assms])
  have "?p \<le> ponder_adjust options ?p" using p1 by (intro ponder_adjust_ge) simp
  with p1 o have o1: "1 \<le> optimum (fst (init_part_000 tm limits us ply options ota))" by simp
  have off: "options ''Ponder'' = 0 \<Longrightarrow> ponder_adjust options ?p = ?p"
    by (simp add: ponder_adjust_def)
  have t: "1 \<le> maximum (fst (init_timeman tm limits us ply options ota))"
    using plan_timeman_ge1 by (simp add: init_timeman_plan(2) [OF assms])
  from p1 pm o o1 off t show ?thesis by auto
qed

text \<open>The scenario of the specification: 60000 ms, sudden death, ply 10, overhead 10.\<close>

theorem bounds_order_witness:
  "time (go_limits 60000 0 0) WHITE \<noteq> 0 \<and> options_of 0 10 0 ''Ponder'' = 0
   \<and> 1 \<le> optimum (fst (init_part_000 fresh (go_limits 60000 0 0) WHITE 10 (options_of 0 10 0) (- 1)))
   \<and> optimum (fst (init_part_000 fresh (go_limits 60000 0 0) WHITE 10 (options_of 0 10 0) (- 1)))
       \<le> maximum (fst (init_part_000 fresh (go_limits 60000 0 0) WHITE 10 (options_of 0 10 0) (- 1)))
   \<and> 1 \<le> maximum (fst (init_timeman fresh (go_limits 60000 0 0) WHITE 10 (options_of 0 10 0) (- 1)))"
  using bounds_order [of "go_limits 60000 0 0" WHITE fresh 10 "options_of 0 10 0" "- 1"]
  by (simp add: go_limits_sel options_of_sel)

text \<open>
  The invariant \<open>maximum() \<ge> optimum() \<ge> 1\<close> itself fails: part\_000 clamps before the
  pondering adjustment, and timeman.cpp does not clamp the optimum. With 1000 ms on
  the clock, 3210 ms increment, 2 moves to go, 800 ms overhead and pondering enabled,
  part\_000 stores \<open>optimum() = 250 > maximum() = 200\<close>; the same call with pondering
  disabled gives \<open>optimum() = 444 > maximum() = 15\<close> in timeman.cpp; and with 1 ms on
  the clock and 1 move to go timeman.cpp stores \<open>optimum() = 0\<close>.
\<close>

theorem bounds_order_counterexample:
  "optimum (fst (init_part_000 fresh (go_limits 1000 3210 2) WHITE 0 (options_of 0 800 1) (- 1))) = 250
   \<and> maximum (fst (init_part_000 fresh (go_limits 1000 3210 2) WHITE 0 (options_of 0 800 1) (- 1))) = 200
   \<and> optimum (fst (init_timeman fresh (go_limits 1000 3210 2) WHITE 0 (options_of 0 800 0) (- 1))) = 444
   \<and> maximum (fst (init_timeman fresh (go_limits 1000 3210 2) WHITE 0 (options_of 0 800 0) (- 1))) = 15
   \<and> optimum (fst (init_timeman fresh (go_limits 1 0 1) WHITE 0 (options_of 0 0 0) (- 1))) = 0"
  by (simp add: clock_eval plan_part_000_A plan_timeman_A plan_timeman_B)

section \<open>The bounds as fractions of the remaining time\<close>




section \<open>Zero remaining time\<close>

text \<open>
  C3 (amended). When the remaining time of the side to move is zero, \<open>init\<close> returns
  with \<open>optimumTime\<close> and \<open>maximumTime\<close> unchanged; \<open>useNodesTime\<close> is false in
  part\_000, and in timeman.cpp it is true exactly when the node rate is nonzero
  (the flag is set before the early return there).
\<close>

theorem zero_time_frame:
  assumes "time limits us = 0"
  shows "useNodesTime (fst (init_part_000 tm limits us ply options ota)) = False
       \<and> useNodesTime (fst (init_timeman tm limits us ply options ota))
           = (options ''nodestime'' \<noteq> 0)
       \<and> optimum (fst (init_part_000 tm limits us ply options ota)) = optimum tm
       \<and> maximum (fst (init_part_000 tm limits us ply options ota)) = maximum tm
       \<and> optimum (fst (init_timeman tm limits us ply options ota)) = optimum tm
       \<and> maximum (fst (init_timeman tm limits us ply options ota)) = maximum tm"
  using assms by (simp add: init_part_000_zero init_timeman_zero optimum_def maximum_def)

text \<open>A call with zero remaining time and a node rate of 1000.\<close>

theorem zero_time_frame_witness:
  "time (go_limits 0 0 0) WHITE = 0
   \<and> useNodesTime (fst (init_part_000 fresh (go_limits 0 0 0) WHITE 0 (options_of 1000 10 0) (- 1)))
       = False
   \<and> optimum (fst (init_part_000 fresh (go_limits 0 0 0) WHITE 0 (options_of 1000 10 0) (- 1)))
       = optimum fresh
   \<and> maximum (fst (init_timeman fresh (go_limits 0 0 0) WHITE 0 (options_of 1000 10 0) (- 1)))
       = maximum fresh"
  using zero_time_frame [of "go_limits 0 0 0" WHITE fresh 0 "options_of 1000 10 0" "- 1"]
  by (simp add: go_limits_sel)

text \<open>The claim fails in timeman.cpp: the same call leaves \<open>useNodesTime\<close> true.\<close>

theorem zero_time_frame_counterexample:
  "time (go_limits 0 0 0) WHITE = 0
   \<and> useNodesTime (fst (init_timeman fresh (go_limits 0 0 0) WHITE 0 (options_of 1000 10 0) (- 1)))
       = True"
  by (simp add: init_timeman_zero go_limits_sel options_of_sel)

section \<open>The node budget\<close>




section \<open>Pondering\<close>

text \<open>
  C5 (amended). For a call with nonzero remaining time and pondering enabled, let
  \<open>p\<close> be the \<open>optimum()\<close> of the identical call with pondering disabled; \<open>maximum()\<close> is
  the same in both calls, in both files. In part\_000, \<open>optimum() = p + p / 4\<close> with the
  integer division of C++, where \<open>p \<ge> 1\<close>: the increase is strict exactly when
  \<open>p \<ge> 4\<close>, it is exactly 25 percent exactly when 4 divides \<open>p\<close>, and \<open>maximum() \<ge> p\<close>.
  In timeman.cpp, \<open>optimum() = p + p / 4\<close> in every call with a non-negative ply, a
  moves-to-go from 0 to 21474836, a non-negative node rate, a remaining time (as
  the call leaves it in the limits) of at least the scale factor and below \<open>2^62\<close>,
  and a calibration scalar of at most 6 on entry: in such a call every double is
  finite and \<open>p + p / 4\<close> fits in 64 bits.
\<close>

theorem ponder_inflation:
  assumes "time limits us \<noteq> 0" and "options ''Ponder'' \<noteq> 0"
  shows "(let p = optimum (fst (init_part_000 tm limits us ply (options(''Ponder'' := 0)) ota));
              q = optimum (fst (init_part_000 tm limits us ply options ota))
          in q = p + p sdiv 4 \<and> p sdiv 4 = p div 4 \<and> 1 \<le> p
             \<and> (p < q) = (4 \<le> p) \<and> (4 * q = 5 * p) = (4 dvd p)
             \<and> maximum (fst (init_part_000 tm limits us ply options ota))
                 = maximum (fst (init_part_000 tm limits us ply (options(''Ponder'' := 0)) ota))
             \<and> p \<le> maximum (fst (init_part_000 tm limits us ply options ota)))
       \<and> maximum (fst (init_timeman tm limits us ply options ota))
           = maximum (fst (init_timeman tm limits us ply (options(''Ponder'' := 0)) ota))
       \<and> (let p = optimum (fst (init_timeman tm limits us ply (options(''Ponder'' := 0)) ota));
              q = optimum (fst (init_timeman tm limits us ply options ota));
              t = time (fst (snd (init_timeman tm limits us ply options ota))) us
          in 0 \<le> ply \<and> 0 \<le> movestogo limits \<and> movestogo limits \<le> 21474836
             \<and> 0 \<le> options ''nodestime''
             \<and> scaleFactor (options ''nodestime'' \<noteq> 0) (options ''nodestime'') \<le> t
             \<and> t < 4611686018427387904 \<and> ota \<le> 6
             \<longrightarrow> q = p + p sdiv 4)"
proof -
  let ?p = "optimum (fst (init_part_000 tm limits us ply (options(''Ponder'' := 0)) ota))"
  let ?q = "optimum (fst (init_part_000 tm limits us ply options ota))"
  have p1: "1 \<le> ?p" and pm: "?p \<le> maximum (fst (init_part_000 tm limits us ply options ota))"
    using init_part_000_order [OF assms(1)] by blast+
  have "?q = ponder_adjust options ?p"
    by (rule init_part_000_ponder(1) [OF assms(1)])
  also have "\<dots> = ?p + ?p sdiv 4"
    using assms(2) by (rule ponder_adjust_on)
  finally have q: "?q = ?p + ?p sdiv 4" .
  have d: "?p sdiv 4 = ?p div 4" using p1 by (intro sdiv4_nonneg) simp
  have "(?p < ?p + ?p div 4) = (4 \<le> ?p)" using p1 by presburger
  then have s: "(?p < ?q) = (4 \<le> ?p)" by (simp only: q d)
  have "(4 * (?p + ?p div 4) = 5 * ?p) = (4 dvd ?p)" by presburger
  then have e: "(4 * ?q = 5 * ?p) = (4 dvd ?p)" by (simp only: q d)
  have m: "maximum (fst (init_part_000 tm limits us ply options ota))
      = maximum (fst (init_part_000 tm limits us ply (options(''Ponder'' := 0)) ota))"
    by (rule init_part_000_ponder(2) [OF assms(1)])
  let ?pt = "optimum (fst (init_timeman tm limits us ply (options(''Ponder'' := 0)) ota))"
  let ?t = "time (fst (snd (init_timeman tm limits us ply options ota))) us"
  have "optimum (fst (init_timeman tm limits us ply options ota)) = ponder_adjust options ?pt"
    by (rule init_timeman_ponder(1) [OF assms(1)])
  also have "\<dots> = ?pt + ?pt sdiv 4"
    using assms(2) by (rule ponder_adjust_on)
  finally have qt: "optimum (fst (init_timeman tm limits us ply options ota)) = ?pt + ?pt sdiv 4" .
  then have qt': "0 \<le> ply \<and> 0 \<le> movestogo limits \<and> movestogo limits \<le> 21474836
             \<and> 0 \<le> options ''nodestime''
             \<and> scaleFactor (options ''nodestime'' \<noteq> 0) (options ''nodestime'') \<le> ?t
             \<and> ?t < 4611686018427387904 \<and> ota \<le> 6
             \<longrightarrow> optimum (fst (init_timeman tm limits us ply options ota)) = ?pt + ?pt sdiv 4"
    by (rule impI)
  have mt: "maximum (fst (init_timeman tm limits us ply options ota))
      = maximum (fst (init_timeman tm limits us ply (options(''Ponder'' := 0)) ota))"
    by (rule init_timeman_ponder(2) [OF assms(1)])
  show ?thesis
    unfolding Let_def
    by (intro conjI) (fact q d p1 s e m pm qt' mt)+
qed

text \<open>
  1000 ms on the clock, 3210 ms increment, 2 moves to go, 800 ms overhead, pondering
  enabled: part\_000 goes from 200 to 250, timeman.cpp from 444 to 555.
\<close>

theorem ponder_inflation_witness:
  "time (go_limits 1000 3210 2) WHITE \<noteq> 0 \<and> options_of 0 800 1 ''Ponder'' \<noteq> 0
   \<and> optimum (fst (init_part_000 fresh (go_limits 1000 3210 2) WHITE 0
                      ((options_of 0 800 1)(''Ponder'' := 0)) (- 1))) = 200
   \<and> optimum (fst (init_part_000 fresh (go_limits 1000 3210 2) WHITE 0 (options_of 0 800 1) (- 1)))
       = 200 + 200 sdiv 4
   \<and> (0::int) \<le> 0 \<and> 0 \<le> movestogo (go_limits 1000 3210 2)
   \<and> movestogo (go_limits 1000 3210 2) \<le> 21474836
   \<and> 0 \<le> options_of 0 800 1 ''nodestime''
   \<and> scaleFactor (options_of 0 800 1 ''nodestime'' \<noteq> 0) (options_of 0 800 1 ''nodestime'')
       \<le> time (fst (snd (init_timeman fresh (go_limits 1000 3210 2) WHITE 0
                             (options_of 0 800 1) (- 1)))) WHITE
   \<and> time (fst (snd (init_timeman fresh (go_limits 1000 3210 2) WHITE 0
                         (options_of 0 800 1) (- 1)))) WHITE < 4611686018427387904
   \<and> (- 1::real) \<le> 6
   \<and> optimum (fst (init_timeman fresh (go_limits 1000 3210 2) WHITE 0
                      ((options_of 0 800 1)(''Ponder'' := 0)) (- 1))) = 444
   \<and> optimum (fst (init_timeman fresh (go_limits 1000 3210 2) WHITE 0 (options_of 0 800 1) (- 1)))
       = 444 + 444 sdiv 4"
  using ponder_inflation [of "go_limits 1000 3210 2" WHITE "options_of 0 800 1" fresh 0 "- 1"]
  by (simp add: Let_def clock_eval split_def scaleFactor_def plan_part_000_A plan_timeman_A)

text \<open>
  The claim fails in part\_000. With 4 ms on the clock and 1 move to go, \<open>optimum()\<close> is
  1 with and without pondering. With 1010 ms and 2 moves to go it is 252 against 202,
  which is not 25 percent more.
\<close>

theorem ponder_inflation_counterexample:
  "optimum (fst (init_part_000 fresh (go_limits 4 0 1) WHITE 0 (options_of 0 0 1) (- 1))) = 1
   \<and> optimum (fst (init_part_000 fresh (go_limits 4 0 1) WHITE 0 (options_of 0 0 0) (- 1))) = 1
   \<and> optimum (fst (init_part_000 fresh (go_limits 1010 0 2) WHITE 0 (options_of 0 0 1) (- 1))) = 252
   \<and> optimum (fst (init_part_000 fresh (go_limits 1010 0 2) WHITE 0 (options_of 0 0 0) (- 1))) = 202"
  by (simp add: clock_eval plan_part_000_C plan_part_000_D)

section \<open>The calibration scalar\<close>

text \<open>
  What the guard \<open>if (originalTimeAdjust < 0)\<close> does in any one call. Both files return
  the same scalar. A call leaves it unchanged when it is non-negative on entry, when
  moves-to-go is given, or when the remaining time is zero. A sudden-death call with
  nonzero remaining time that finds it negative assigns
  \<open>0.3128 * log10(timeLeft) - 0.4354\<close>, which is negative exactly when
  \<open>timeLeft \<le> 24\<close>.
\<close>

lemma calibration_guard:
  "(let l = fst (snd (init_part_000 tm limits us ply options ota));
        t = timeLeft l us
              (centiMTG 0 (scaledTime l us
                 (scaleFactor (options ''nodestime'' \<noteq> 0) (options ''nodestime''))))
              (options ''Move Overhead'');
        a = snd (snd (init_part_000 tm limits us ply options ota))
    in snd (snd (init_timeman tm limits us ply options ota)) = a
       \<and> (0 \<le> ota \<longrightarrow> a = ota)
       \<and> (movestogo limits \<noteq> 0 \<longrightarrow> a = ota)
       \<and> (time limits us = 0 \<longrightarrow> a = ota)
       \<and> (ota < 0 \<and> movestogo limits = 0 \<and> time limits us \<noteq> 0 \<longrightarrow>
            a = 0.3128 * log 10 (real_of_int t) - 0.4354 \<and> (a < 0) = (t \<le> 24)))"
proof (cases "time limits us = 0")
  case True
  then show ?thesis
    by (simp add: Let_def init_part_000_zero init_timeman_zero)
next
  case False
  let ?l = "fst (snd (init_part_000 tm limits us ply options ota))"
  let ?t = "timeLeft ?l us
              (centiMTG 0 (scaledTime ?l us
                 (scaleFactor (options ''nodestime'' \<noteq> 0) (options ''nodestime''))))
              (options ''Move Overhead'')"
  let ?a = "snd (snd (init_part_000 tm limits us ply options ota))"
  have a: "?a = (if movestogo limits = 0 then adjust ota ?t else ota)"
    by (rule init_originalTimeAdjust(1) [OF False])
  have same: "snd (snd (init_timeman tm limits us ply options ota)) = ?a"
    by (rule init_originalTimeAdjust(2) [OF False])
  have sign: "(0.3128 * log 10 (real_of_int ?t) - 0.4354 < 0) = (?t \<le> 24)"
    by (rule calibration_sign [OF timeLeft_ge1])
  have c1: "0 \<le> ota \<longrightarrow> ?a = ota" by (simp add: a adjust_def)
  have c2: "movestogo limits \<noteq> 0 \<longrightarrow> ?a = ota" by (simp add: a)
  have c3: "time limits us = 0 \<longrightarrow> ?a = ota" using False by simp
  have c4: "ota < 0 \<and> movestogo limits = 0 \<and> time limits us \<noteq> 0 \<longrightarrow>
            ?a = 0.3128 * log 10 (real_of_int ?t) - 0.4354 \<and> (?a < 0) = (?t \<le> 24)"
    using sign by (simp add: a adjust_def)
  show ?thesis
    unfolding Let_def by (intro conjI) (fact same c1 c2 c3 c4)+
qed

text \<open>
  C6. The claim is that \<open>originalTimeAdjust\<close> is computed at most once per game:
  assigned by the first sudden-death call and unchanged by every later one. The code
  marks "not yet computed" by a negative value, and the value it computes is itself
  negative for \<open>timeLeft \<le> 24\<close>. In a game whose first sudden-death call has 10 ms on
  the clock (no increment, no overhead) the scalar becomes \<open>-0.1226\<close>; the next
  sudden-death call, with 1 ms on the clock, computes it a second time and stores
  \<open>-0.4354\<close>. Both files do the same.
\<close>

theorem calibration_reassigned:
  "snd (snd (init_part_000 fresh (go_limits 10 0 0) WHITE 0 (options_of 0 0 0) (- 1))) = - 0.1226
   \<and> snd (snd (init_part_000
                 (fst (init_part_000 fresh (go_limits 10 0 0) WHITE 0 (options_of 0 0 0) (- 1)))
                 (go_limits 1 0 0) WHITE 2 (options_of 0 0 0) (- 0.1226))) = - 0.4354
   \<and> snd (snd (init_timeman fresh (go_limits 10 0 0) WHITE 0 (options_of 0 0 0) (- 1))) = - 0.1226
   \<and> snd (snd (init_timeman
                 (fst (init_timeman fresh (go_limits 10 0 0) WHITE 0 (options_of 0 0 0) (- 1)))
                 (go_limits 1 0 0) WHITE 2 (options_of 0 0 0) (- 0.1226))) = - 0.4354"
  by (simp add: init_originalTimeAdjust init_clock_limits go_limits_sel options_of_sel
      scaleFactor_def timeLeft_10 timeLeft_1 adjust_def)

section \<open>Divisors\<close>

text \<open>
  C7 (amended). \<open>timeLeft\<close> is at least 1 and \<open>scaleFactor\<close> is nonzero in every call.
  With a moves-to-go from 0 to 21474836 (the range in which \<open>movestogo * 100\<close> is
  non-negative and fits in an \<open>int\<close>), \<open>centiMTG\<close> is at least 5, so
  \<open>movesToGo \<ge> 0.05\<close>, whenever \<open>scaledTime \<ge> 1\<close>, which holds whenever the remaining
  time that the computation uses is at least the positive scale factor: a positive
  clock without node-time emulation, a node budget of at least the node rate with
  it. With \<open>scaledTime = 0\<close>, \<open>centiMTG\<close> is 0.
\<close>

theorem divisors_guarded:
  "1 \<le> timeLeft limits us cmtg mo
   \<and> scaleFactor (npm \<noteq> 0) npm \<noteq> 0
   \<and> (0 \<le> mtg \<and> mtg \<le> 21474836 \<and> 1 \<le> st \<longrightarrow> 5 \<le> centiMTG mtg st)
   \<and> (0 \<le> mtg \<and> mtg \<le> 21474836 \<and> st = 0 \<longrightarrow> centiMTG mtg st = 0)
   \<and> (0 \<le> movestogo limits \<and> movestogo limits \<le> 21474836 \<and> 0 < sf \<and> sf \<le> time limits us \<longrightarrow>
        5 \<le> centiMTG (movestogo limits) (scaledTime limits us sf))"
proof -
  have "0 \<le> movestogo limits \<and> movestogo limits \<le> 21474836 \<and> 0 < sf \<and> sf \<le> time limits us \<longrightarrow>
        5 \<le> centiMTG (movestogo limits) (scaledTime limits us sf)"
    using sdiv_ge1 [of sf "time limits us"]
    by (auto simp: scaledTime_def intro!: centiMTG_ge5)
  then show ?thesis
    using timeLeft_ge1 [of limits us cmtg mo] centiMTG_ge5 [of mtg st] centiMTG_zero [of mtg]
    by (auto simp: scaleFactor_def)
qed

text \<open>30 moves to go with 300000 ms; a scaled time of 0; 60000 ms without node time.\<close>

theorem divisors_guarded_witness:
  "(0::int) \<le> 30 \<and> (30::int) \<le> 21474836 \<and> (1::int) \<le> 300000 \<and> 5 \<le> centiMTG 30 300000
   \<and> (0::int) \<le> 10 \<and> (10::int) \<le> 21474836 \<and> centiMTG 10 0 = 0
   \<and> 0 \<le> movestogo (go_limits 60000 0 0) \<and> movestogo (go_limits 60000 0 0) \<le> 21474836
   \<and> (0::int) < 1 \<and> 1 \<le> time (go_limits 60000 0 0) WHITE
   \<and> 5 \<le> centiMTG (movestogo (go_limits 60000 0 0)) (scaledTime (go_limits 60000 0 0) WHITE 1)
   \<and> 1 \<le> timeLeft (go_limits 60000 0 0) WHITE 5051 10"
  using divisors_guarded [of "go_limits 60000 0 0" WHITE 5051 10 0 30 300000 1]
    divisors_guarded [of "go_limits 60000 0 0" WHITE 5051 10 0 10 0 1]
  by (simp add: go_limits_sel)

text \<open>
  The claim fails in a reachable node-time state. With a node rate of 1 and 1000 ms,
  the first \<open>init\<close> after \<open>clear()\<close> seeds 1000 nodes; \<open>advance_nodes_time(1000)\<close> leaves
  0; the next \<open>init\<close>, with 10 moves to go, overwrites the remaining time with 0, so
  \<open>scaledTime = 0\<close> and \<open>centiMTG = 0\<close>, and the moves-to-go branch divides by
  \<open>movesToGo = 0.0\<close>. It also fails on a healthy clock when the 32-bit product
  overflows: with \<open>2^30\<close> moves to go, \<open>movestogo * 100\<close> is 0 and so is \<open>centiMTG\<close>.
\<close>

theorem divisors_guarded_counterexample:
  "availableNodes (fst (init_part_000 (clear fresh) (go_limits 1000 0 10) WHITE 0
                          (options_of 1 0 0) (- 1))) = 1000
   \<and> advance_nodes_time 1000
        (fst (init_part_000 (clear fresh) (go_limits 1000 0 10) WHITE 0 (options_of 1 0 0) (- 1)))
      = Some ((fst (init_part_000 (clear fresh) (go_limits 1000 0 10) WHITE 0
                      (options_of 1 0 0) (- 1)))\<lparr>availableNodes := 0\<rparr>)
   \<and> time (fst (snd (init_part_000
                 ((fst (init_part_000 (clear fresh) (go_limits 1000 0 10) WHITE 0
                          (options_of 1 0 0) (- 1)))\<lparr>availableNodes := 0\<rparr>)
                 (go_limits 900 0 10) WHITE 2 (options_of 1 0 0) (- 1)))) WHITE = 0
   \<and> movestogo (fst (snd (init_part_000
                 ((fst (init_part_000 (clear fresh) (go_limits 1000 0 10) WHITE 0
                          (options_of 1 0 0) (- 1)))\<lparr>availableNodes := 0\<rparr>)
                 (go_limits 900 0 10) WHITE 2 (options_of 1 0 0) (- 1)))) = 10
   \<and> scaledTime (fst (snd (init_part_000
                 ((fst (init_part_000 (clear fresh) (go_limits 1000 0 10) WHITE 0
                          (options_of 1 0 0) (- 1)))\<lparr>availableNodes := 0\<rparr>)
                 (go_limits 900 0 10) WHITE 2 (options_of 1 0 0) (- 1)))) WHITE
        (scaleFactor True 1) = 0
   \<and> centiMTG 10 0 = 0
   \<and> centiMTG 1073741824 60000 = 0"
  by (simp add: init_part_000_nodes split_def nodes_time_block_eq clear_def fresh_sel
      go_limits_sel options_of_sel advance_nodes_time_def scaledTime_def scaleFactor_def
      centiMTG_zero eval_defs)

section \<open>The move horizon\<close>




section \<open>The limits without node time\<close>

text \<open>
  C9. When the node rate is zero and the remaining time is nonzero, \<open>init\<close> returns
  the limits record as it received it (every field) and leaves \<open>availableNodes\<close>
  unchanged, in both files.
\<close>

theorem clock_mode_frame:
  assumes "options ''nodestime'' = 0" and "time limits us \<noteq> 0"
  shows "fst (snd (init_part_000 tm limits us ply options ota)) = limits
       \<and> availableNodes (fst (init_part_000 tm limits us ply options ota)) = availableNodes tm
       \<and> fst (snd (init_timeman tm limits us ply options ota)) = limits
       \<and> availableNodes (fst (init_timeman tm limits us ply options ota)) = availableNodes tm"
  using assms by (simp add: init_part_000_clock init_timeman_clock split_def)

text \<open>The scenario of the specification.\<close>

theorem clock_mode_frame_witness:
  "options_of 0 10 0 ''nodestime'' = 0 \<and> time (go_limits 60000 0 0) WHITE \<noteq> 0
   \<and> fst (snd (init_part_000 fresh (go_limits 60000 0 0) WHITE 10 (options_of 0 10 0) (- 1)))
       = go_limits 60000 0 0
   \<and> availableNodes (fst (init_part_000 fresh (go_limits 60000 0 0) WHITE 10 (options_of 0 10 0) (- 1)))
       = 0
   \<and> fst (snd (init_timeman fresh (go_limits 60000 0 0) WHITE 10 (options_of 0 10 0) (- 1)))
       = go_limits 60000 0 0
   \<and> availableNodes (fst (init_timeman fresh (go_limits 60000 0 0) WHITE 10 (options_of 0 10 0) (- 1)))
       = 0"
  using clock_mode_frame [of "options_of 0 10 0" "go_limits 60000 0 0" WHITE fresh 10 "- 1"]
  by (simp add: go_limits_sel options_of_sel fresh_sel)

section \<open>Determinism\<close>

text \<open>
  C10 (amended). The results of \<open>init\<close> (the stored fields, the limits and the
  calibration scalar) are the same for two objects that agree on \<open>availableNodes\<close>
  and, when the remaining time is zero, also on \<open>optimumTime\<close> and \<open>maximumTime\<close>,
  which such a call leaves in place; all other arguments are shared.
\<close>

theorem init_deterministic:
  assumes "availableNodes tm1 = availableNodes tm2"
    and "time limits us = 0 \<longrightarrow>
           optimumTime tm1 = optimumTime tm2 \<and> maximumTime tm1 = maximumTime tm2"
  shows "init_part_000 tm1 limits us ply options ota = init_part_000 tm2 limits us ply options ota
       \<and> init_timeman tm1 limits us ply options ota = init_timeman tm2 limits us ply options ota"
proof (cases "time limits us = 0")
  case True
  with assms show ?thesis
    by (simp add: init_part_000_zero init_timeman_zero TimeManagement.equality)
next
  case False
  show ?thesis
  proof (cases "options ''nodestime'' = 0")
    case True
    with False show ?thesis
      by (simp add: init_part_000_clock init_timeman_clock split_def TimeManagement.equality
          assms(1))
  next
    case nz: False
    with False show ?thesis
      by (simp add: init_part_000_nodes init_timeman_nodes split_def nodes_time_block_eq
          TimeManagement.equality assms(1))
  qed
qed

text \<open>Two objects that differ in the stored optimum, and a call with 60000 ms.\<close>

theorem init_deterministic_witness:
  "availableNodes fresh = availableNodes (fresh\<lparr>optimumTime := 7\<rparr>)
   \<and> time (go_limits 60000 0 0) WHITE \<noteq> 0
   \<and> init_part_000 fresh (go_limits 60000 0 0) WHITE 10 (options_of 0 10 0) (- 1)
     = init_part_000 (fresh\<lparr>optimumTime := 7\<rparr>) (go_limits 60000 0 0) WHITE 10 (options_of 0 10 0) (- 1)
   \<and> init_timeman fresh (go_limits 60000 0 0) WHITE 10 (options_of 0 10 0) (- 1)
     = init_timeman (fresh\<lparr>optimumTime := 7\<rparr>) (go_limits 60000 0 0) WHITE 10 (options_of 0 10 0) (- 1)"
  using init_deterministic [of fresh "fresh\<lparr>optimumTime := 7\<rparr>" "go_limits 60000 0 0" WHITE
      10 "options_of 0 10 0" "- 1"]
  by (simp add: go_limits_sel fresh_sel)

text \<open>
  The claim fails for a call with zero remaining time: the two objects agree on
  \<open>availableNodes\<close>, every argument is shared, and the stored \<open>optimumTime\<close> differs
  after the call.
\<close>

theorem init_deterministic_counterexample:
  "availableNodes fresh = availableNodes (fresh\<lparr>optimumTime := 7\<rparr>)
   \<and> optimumTime (fst (init_part_000 fresh (go_limits 0 0 0) WHITE 0 (options_of 0 10 0) (- 1)))
      \<noteq> optimumTime (fst (init_part_000 (fresh\<lparr>optimumTime := 7\<rparr>) (go_limits 0 0 0) WHITE 0
                               (options_of 0 10 0) (- 1)))
   \<and> optimumTime (fst (init_timeman fresh (go_limits 0 0 0) WHITE 0 (options_of 0 10 0) (- 1)))
      \<noteq> optimumTime (fst (init_timeman (fresh\<lparr>optimumTime := 7\<rparr>) (go_limits 0 0 0) WHITE 0
                               (options_of 0 10 0) (- 1)))"
  by (simp add: init_part_000_zero init_timeman_zero go_limits_sel fresh_sel)

end
